theory Spec2Isabelle
  imports Main
begin

section \<open>The PDF document model (backend/src/models/pdfs.model.js)\<close>

text \<open>
  The file declares one Mongoose schema, \<open>PdfSchema\<close>, with a pre-save hook, one static
  (\<open>findByUser\<close>) and four instance methods (\<open>getUserPermission\<close>, \<open>hasAccess\<close>,
  \<open>shareWith\<close>, \<open>removeSharing\<close>). The embedding below follows it top to bottom.

  Conventions.
  \<^item> An ObjectId is represented by the string its \<open>toString()\<close> returns; every comparison
    in the source is made on these strings.
  \<^item> A JavaScript string is a list of code units; only lengths, emptiness and equality
    are used.
  \<^item> \<open>new Date()\<close> is a parameter \<open>now\<close> of the operation that reads the clock.
  \<^item> A field that may be \<open>undefined\<close> is an \<open>option\<close>. Fields with a schema default
    (\<open>is_indexed\<close>, \<open>indexing_status\<close>, \<open>total_chunks\<close>, \<open>successful_chunks\<close>,
    \<open>mime_type\<close>, \<open>milvus_collection\<close>, \<open>is_public\<close>, \<open>permission\<close>) always hold a value.
  \<^item> The record holds the values as stored on the document, that is after the schema's
    setters (\<open>trim\<close>) have run.
  \<^item> \<open>uploaded_by\<close> is an ObjectId, as the schema declares it. For an ObjectId both
    \<open>uploaded_by._id.toString()\<close> and \<open>uploaded_by.toString()\<close> give the same string.
\<close>

type_synonym objid = string
type_synonym time = nat

subsection \<open>Data: the schema\<close>

text \<open>
  An element of \<open>shared_with\<close>. The schema (lines 100-110) declares the two paths \<open>user\<close>
  and \<open>permission\<close>. The instance methods read and write two further properties,
  \<open>user_id\<close> and \<open>shared_at\<close>, which the schema does not declare; they are kept here as
  fields of their own so that each method can be translated as it is written.
\<close>

record grant =
  user :: "objid option"
  permission :: string
  user_id :: "objid option"
  shared_at :: "time option"

record document =
  name :: "string option"
  original_name :: "string option"
  uuid :: "string option"
  size_bytes :: "int option"
  mime_type :: string
  page_count :: "int option"
  is_indexed :: bool
  indexing_status :: string
  indexed_at :: "time option"
  total_chunks :: int
  successful_chunks :: int
  uploaded_by :: objid
  error_message :: "string option"
  description :: "string option"
  tags :: "string list"
  milvus_collection :: string
  is_public :: bool
  shared_with :: "grant list"
  modified_is_indexed :: bool

text \<open>
  \<open>size_bytes\<close> is the schema path \<open>size\<close>. \<open>modified_is_indexed\<close> is what
  \<open>this.isModified('is_indexed')\<close> returns: the change tracking state of the document.
\<close>

subsection \<open>Errors\<close>

text \<open>
  One constructor per validator of the schema; \<open>TagTooLong i\<close> and \<open>BadPermission i\<close> carry
  the index of the offending array element (the paths \<open>tags.i\<close> and
  \<open>shared_with.i.permission\<close>).
\<close>

datatype verr =
    NameRequired
  | NameTooLong
  | OriginalNameRequired
  | UuidRequired
  | SizeRequired
  | SizeNegative
  | PageCountNegative
  | BadIndexingStatus
  | TotalChunksNegative
  | SuccessfulChunksNegative
  | DescriptionTooLong
  | TagTooLong nat
  | BadPermission nat

fun verr_message :: "verr \<Rightarrow> string" where
  "verr_message NameRequired = ''PDF name is required''"
| "verr_message NameTooLong = ''PDF name cannot exceed 255 characters''"
| "verr_message OriginalNameRequired = ''Path `original_name` is required.''"
| "verr_message UuidRequired = ''PDF UUID is required''"
| "verr_message SizeRequired = ''File size is required''"
| "verr_message SizeNegative = ''File size cannot be negative''"
| "verr_message PageCountNegative = ''Page count cannot be negative''"
| "verr_message BadIndexingStatus = ''not a valid enum value for path `indexing_status`.''"
| "verr_message TotalChunksNegative = ''Total chunks cannot be negative''"
| "verr_message SuccessfulChunksNegative = ''Successful chunks cannot be negative''"
| "verr_message DescriptionTooLong = ''Description cannot exceed 500 characters''"
| "verr_message (TagTooLong i) = ''Tag cannot exceed 50 characters''"
| "verr_message (BadPermission i) = ''not a valid enum value for path `permission`.''"

text \<open>
  \<open>Error msg\<close> is \<open>throw new Error(msg)\<close>; \<open>ValidationError es\<close> is the rejection of
  \<open>save()\<close> when the validators \<open>es\<close> fail.
\<close>

datatype error = Error string | ValidationError "verr list"

subsection \<open>JavaScript helpers\<close>

text \<open>\<open>!s\<close> for a string that may be undefined: undefined and the empty string are falsy.\<close>

fun falsy :: "string option \<Rightarrow> bool" where
  "falsy None = True"
| "falsy (Some s) = (s = [])"

text \<open>\<open>Array.prototype.findIndex\<close>: the first index whose element satisfies \<open>p\<close>, or -1.\<close>

fun findIndex :: "('a \<Rightarrow> bool) \<Rightarrow> 'a list \<Rightarrow> int" where
  "findIndex p [] = -1"
| "findIndex p (x # xs) =
     (if p x then 0 else (let i = findIndex p xs in if i = -1 then -1 else i + 1))"

text \<open>\<open>xs.splice(i, 1)\<close> for an index \<open>i\<close> inside the array.\<close>

definition splice1 :: "nat \<Rightarrow> 'a list \<Rightarrow> 'a list" where
  "splice1 i xs = take i xs @ drop (Suc i) xs"

subsection \<open>Validation (the validators declared in the schema)\<close>

definition validate_name :: "document \<Rightarrow> verr list" where
  "validate_name d =
     (if falsy (name d) then [NameRequired]
      else if 255 < length (the (name d)) then [NameTooLong] else [])"

definition validate_original_name :: "document \<Rightarrow> verr list" where
  "validate_original_name d = (if falsy (original_name d) then [OriginalNameRequired] else [])"

definition validate_uuid :: "document \<Rightarrow> verr list" where
  "validate_uuid d = (if falsy (uuid d) then [UuidRequired] else [])"

definition validate_size :: "document \<Rightarrow> verr list" where
  "validate_size d =
     (case size_bytes d of None \<Rightarrow> [SizeRequired]
      | Some n \<Rightarrow> (if n < 0 then [SizeNegative] else []))"

definition validate_page_count :: "document \<Rightarrow> verr list" where
  "validate_page_count d =
     (case page_count d of None \<Rightarrow> []
      | Some n \<Rightarrow> (if n < 0 then [PageCountNegative] else []))"

definition validate_indexing_status :: "document \<Rightarrow> verr list" where
  "validate_indexing_status d =
     (if indexing_status d \<in> set [''pending'', ''processing'', ''completed'', ''failed'']
      then [] else [BadIndexingStatus])"

definition validate_chunks :: "document \<Rightarrow> verr list" where
  "validate_chunks d =
     (if total_chunks d < 0 then [TotalChunksNegative] else []) @
     (if successful_chunks d < 0 then [SuccessfulChunksNegative] else [])"

definition validate_description :: "document \<Rightarrow> verr list" where
  "validate_description d =
     (case description d of None \<Rightarrow> []
      | Some s \<Rightarrow> (if 500 < length s then [DescriptionTooLong] else []))"

fun validate_tags_from :: "nat \<Rightarrow> string list \<Rightarrow> verr list" where
  "validate_tags_from i [] = []"
| "validate_tags_from i (t # ts) =
     (if 50 < length t then [TagTooLong i] else []) @ validate_tags_from (Suc i) ts"

fun validate_grants_from :: "nat \<Rightarrow> grant list \<Rightarrow> verr list" where
  "validate_grants_from i [] = []"
| "validate_grants_from i (g # gs) =
     (if permission g \<in> set [''read'', ''write''] then [] else [BadPermission i])
     @ validate_grants_from (Suc i) gs"

definition validate :: "document \<Rightarrow> verr list" where
  "validate d =
     validate_name d @ validate_original_name d @ validate_uuid d @ validate_size d @
     validate_page_count d @ validate_indexing_status d @ validate_chunks d @
     validate_description d @ validate_tags_from 0 (tags d) @
     validate_grants_from 0 (shared_with d)"

subsection \<open>The pre-save hook and save (lines 146-155)\<close>

definition pre_save :: "time \<Rightarrow> document \<Rightarrow> document" where
  "pre_save now d =
     (let d1 = (if modified_is_indexed d \<and> is_indexed d \<and> indexed_at d = None
                then d\<lparr>indexed_at := Some now, indexing_status := ''completed''\<rparr>
                else d)
      in if falsy (original_name d1) \<and> \<not> falsy (name d1)
         then d1\<lparr>original_name := name d1\<rparr>
         else d1)"

text \<open>
  \<open>document.save()\<close>. Mongoose validates the document in a built-in pre-save hook that
  runs before the hooks registered with \<open>schema.pre('save', ...)\<close>. A document that fails
  a validator is rejected with a ValidationError, is not written, and the hook of lines
  146-155 does not run. The result is the in-memory document after the call together
  with the error of the rejection, if any.
\<close>

definition save :: "time \<Rightarrow> document \<Rightarrow> document \<times> error option" where
  "save now d =
     (case validate d of
        [] \<Rightarrow> (pre_save now d, None)
      | e # es \<Rightarrow> (d, Some (ValidationError (e # es))))"

subsection \<open>Access resolution (lines 157-188)\<close>

definition getUserPermission :: "document \<Rightarrow> objid \<Rightarrow> string" where
  "getUserPermission d userId =
     (if userId = uploaded_by d then ''owner''
      else if is_public d then ''read''
      else if 0 < length (shared_with d) then
        (case find (\<lambda>share. user_id share = Some userId) (shared_with d) of
           Some userShare \<Rightarrow>
             (if permission userShare = [] then ''read'' else permission userShare)
         | None \<Rightarrow> ''none'')
      else ''none'')"

text \<open>
  The file assigns \<open>PdfSchema.methods.hasAccess\<close> twice. The assignment of line 185
  replaces the one of line 128, so \<open>hasAccess\<close> below is the method documents have;
  \<open>hasAccess_128\<close> is the replaced one, kept for comparison.
\<close>

definition hasAccess_128 :: "document \<Rightarrow> objid \<Rightarrow> bool" where
  "hasAccess_128 d userId =
     (if uploaded_by d = userId then True
      else if is_public d then True
      else list_ex (\<lambda>entry. user entry = Some userId) (shared_with d))"

definition hasAccess :: "document \<Rightarrow> objid \<Rightarrow> bool" where
  "hasAccess d userId = (let permission = getUserPermission d userId in permission \<noteq> ''none'')"

subsection \<open>Listing (lines 135-143)\<close>

text \<open>
  \<open>findByUser\<close> with the default \<open>options = {}\<close>, over the collection as a list of
  documents. The query path \<open>'shared_with.user'\<close> matches a document when some element of
  its \<open>shared_with\<close> array has \<open>user\<close> equal to \<open>userId\<close>.
\<close>

definition findByUser :: "document list \<Rightarrow> objid \<Rightarrow> document list" where
  "findByUser coll userId =
     filter (\<lambda>d. uploaded_by d = userId \<or> is_public d \<or>
                 list_ex (\<lambda>g. user g = Some userId) (shared_with d)) coll"

subsection \<open>Sharing (lines 193-248)\<close>

text \<open>
  \<open>shared_with\<close> is a Mongoose document array: \<open>push\<close> casts its argument to the
  subdocument schema, and the schema is strict (the default, which the options of lines
  111-115 do not change), so only the declared paths \<open>user\<close> and \<open>permission\<close> of the
  pushed object are kept.
\<close>

definition cast_grant :: "grant \<Rightarrow> grant" where
  "cast_grant g = g\<lparr>user_id := None, shared_at := None\<rparr>"

definition shareWith :: "time \<Rightarrow> objid \<Rightarrow> string \<Rightarrow> document \<Rightarrow> document \<times> error option" where
  "shareWith now userId perm d =
     (if uploaded_by d = userId then (d, Some (Error ''Cannot share PDF with owner''))
      else
        (let existingShareIndex =
               findIndex (\<lambda>share. user_id share = Some userId) (shared_with d)
         in if 0 \<le> existingShareIndex then
              save now (d\<lparr>shared_with :=
                (shared_with d)[nat existingShareIndex :=
                   (shared_with d ! nat existingShareIndex)
                     \<lparr>permission := perm, shared_at := Some now\<rparr>]\<rparr>)
            else
              save now (d\<lparr>shared_with := shared_with d @
                [cast_grant \<lparr>user = None, permission = perm,
                             user_id = Some userId, shared_at = Some now\<rparr>]\<rparr>)))"

definition removeSharing :: "time \<Rightarrow> objid \<Rightarrow> document \<Rightarrow> document \<times> error option" where
  "removeSharing now userId d =
     (if length (shared_with d) = 0
      then (d, Some (Error ''PDF is not shared with any users''))
      else
        (let shareIndex = findIndex (\<lambda>share. user_id share = Some userId) (shared_with d)
         in if shareIndex = -1
            then (d, Some (Error ''PDF is not shared with this user''))
            else save now (d\<lparr>shared_with := splice1 (nat shareIndex) (shared_with d)\<rparr>)))"

subsection \<open>Predicates used in the statements\<close>

text \<open>
  A document as Mongoose holds it: every element of \<open>shared_with\<close> carries the declared
  paths only. Documents built by the model constructor, loaded from the collection, or
  extended by \<open>shareWith\<close> are of this shape.
\<close>

definition schema_shaped :: "document \<Rightarrow> bool" where
  "schema_shaped d = list_all (\<lambda>g. user_id g = None \<and> shared_at g = None) (shared_with d)"

text \<open>The subdocument that \<open>shareWith\<close> appends, after the cast.\<close>

definition new_grant :: "string \<Rightarrow> grant" where
  "new_grant perm = \<lparr>user = None, permission = perm, user_id = None, shared_at = None\<rparr>"

text \<open>The declared bounds: \<open>maxlength\<close> of name, description and each tag, \<open>min\<close> of size.\<close>

definition name_too_long :: "document \<Rightarrow> bool" where
  "name_too_long d = (case name d of None \<Rightarrow> False | Some s \<Rightarrow> 255 < length s)"

definition description_too_long :: "document \<Rightarrow> bool" where
  "description_too_long d = (case description d of None \<Rightarrow> False | Some s \<Rightarrow> 500 < length s)"

definition tag_too_long :: "document \<Rightarrow> bool" where
  "tag_too_long d = list_ex (\<lambda>t. 50 < length t) (tags d)"

definition size_negative :: "document \<Rightarrow> bool" where
  "size_negative d = (case size_bytes d of None \<Rightarrow> False | Some n \<Rightarrow> n < 0)"

definition bound_violated :: "document \<Rightarrow> bool" where
  "bound_violated d =
     (name_too_long d \<or> description_too_long d \<or> tag_too_long d \<or> size_negative d)"

text \<open>The validation errors on the paths \<open>name\<close>, \<open>size\<close>, \<open>description\<close> and \<open>tags\<close>.\<close>

fun field_error :: "verr \<Rightarrow> bool" where
  "field_error NameRequired = True"
| "field_error NameTooLong = True"
| "field_error SizeRequired = True"
| "field_error SizeNegative = True"
| "field_error DescriptionTooLong = True"
| "field_error (TagTooLong i) = True"
| "field_error _ = False"

subsection \<open>Concrete documents\<close>

text \<open>
  \<open>doc0\<close>: a freshly uploaded private document of owner \<open>a1\<close>, with the schema's defaults
  and no grant. \<open>doc_granted\<close>: the same document with one grant of the schema's shape,
  \<open>{user: u1, permission: 'write'}\<close>. \<open>doc_first_indexed\<close>: \<open>is_indexed\<close> just set to
  true, never indexed before. \<open>doc_reindexed\<close>: \<open>is_indexed\<close> just set to true on a
  document that was indexed at time 5. \<open>doc_over\<close>: more successful chunks than chunks.
  \<open>doc_long_name\<close>: a name of 256 code units. \<open>doc_no_original\<close>: a name and no
  original name.
\<close>

definition doc0 :: document where
  "doc0 = \<lparr>name = Some ''a.pdf'', original_name = Some ''a.pdf'', uuid = Some ''id-1'',
           size_bytes = Some 1024, mime_type = ''application/pdf'', page_count = None,
           is_indexed = False, indexing_status = ''pending'', indexed_at = None,
           total_chunks = 0, successful_chunks = 0, uploaded_by = ''a1'',
           error_message = None, description = None, tags = [],
           milvus_collection = ''RAG_TEXT_EMBEDDING'', is_public = False,
           shared_with = [], modified_is_indexed = False\<rparr>"

definition grant_u1 :: "string \<Rightarrow> grant" where
  "grant_u1 perm = \<lparr>user = Some ''u1'', permission = perm, user_id = None, shared_at = None\<rparr>"

definition doc_granted :: document where
  "doc_granted = doc0\<lparr>shared_with := [grant_u1 ''write'']\<rparr>"

definition doc_first_indexed :: document where
  "doc_first_indexed = doc0\<lparr>is_indexed := True, modified_is_indexed := True\<rparr>"

definition doc_reindexed :: document where
  "doc_reindexed = doc0\<lparr>is_indexed := True, modified_is_indexed := True,
                         indexed_at := Some 5, indexing_status := ''processing''\<rparr>"

definition doc_over :: document where
  "doc_over = doc0\<lparr>total_chunks := 3, successful_chunks := 5\<rparr>"

definition doc_long_name :: document where
  "doc_long_name = doc0\<lparr>name := Some (replicate 256 CHR ''x'')\<rparr>"

definition doc_no_original :: document where
  "doc_no_original = doc0\<lparr>original_name := None\<rparr>"

section \<open>Auxiliary facts\<close>

lemmas doc_defs = doc0_def grant_u1_def doc_granted_def doc_reindexed_def
  doc_first_indexed_def doc_over_def doc_long_name_def doc_no_original_def new_grant_def

lemmas validate_defs = validate_def validate_name_def validate_original_name_def
  validate_uuid_def validate_size_def validate_page_count_def validate_indexing_status_def
  validate_chunks_def validate_description_def

subsection \<open>findIndex\<close>

lemma findIndex_ge: "-1 \<le> findIndex p xs"
  by (induction xs) (auto simp: Let_def)

lemma findIndex_none: "(findIndex p xs = -1) = (\<forall>x\<in>set xs. \<not> p x)"
proof (induction xs)
  case Nil
  show ?case by simp
next
  case (Cons x xs)
  have "-1 \<le> findIndex p xs" by (rule findIndex_ge)
  with Cons show ?case by (auto simp: Let_def)
qed

lemma findIndex_found:
  "findIndex p xs \<noteq> -1 \<Longrightarrow>
     0 \<le> findIndex p xs \<and> nat (findIndex p xs) < length xs \<and> p (xs ! nat (findIndex p xs))
     \<and> (\<forall>j < nat (findIndex p xs). \<not> p (xs ! j))"
proof (induction xs)
  case Nil
  then show ?case by simp
next
  case (Cons x xs)
  show ?case
  proof (cases "p x")
    case True
    then show ?thesis by simp
  next
    case False
    with Cons.prems have ne: "findIndex p xs \<noteq> -1"
      by (auto simp: Let_def split: if_splits)
    from Cons.IH[OF ne] have ih: "0 \<le> findIndex p xs" "nat (findIndex p xs) < length xs"
      "p (xs ! nat (findIndex p xs))" "\<forall>j < nat (findIndex p xs). \<not> p (xs ! j)"
      by auto
    have eq: "findIndex p (x # xs) = findIndex p xs + 1"
      using False ne by (simp add: Let_def)
    have n: "nat (findIndex p xs + 1) = Suc (nat (findIndex p xs))"
      using ih(1) by simp
    show ?thesis unfolding eq n using ih False
      by (auto simp: nth_Cons split: nat.splits)
  qed
qed

subsection \<open>Validation\<close>

lemma validate_tags_from_set:
  "set (validate_tags_from i ts) = {TagTooLong (i + k) | k. k < length ts \<and> 50 < length (ts ! k)}"
proof (induction ts arbitrary: i)
  case Nil
  show ?case by simp
next
  case (Cons t ts)
  have "{TagTooLong (i + k) | k. k < length (t # ts) \<and> 50 < length ((t # ts) ! k)}
      = (if 50 < length t then {TagTooLong i} else {}) \<union>
        {TagTooLong (Suc i + k) | k. k < length ts \<and> 50 < length (ts ! k)}"
    (is "?L = ?R")
  proof (rule set_eqI)
    fix e
    show "e \<in> ?L \<longleftrightarrow> e \<in> ?R"
    proof
      assume "e \<in> ?L"
      then obtain k where k: "e = TagTooLong (i + k)" "k < length (t # ts)"
        "50 < length ((t # ts) ! k)" by blast
      show "e \<in> ?R"
      proof (cases k)
        case 0
        with k show ?thesis by simp
      next
        case (Suc m)
        with k show ?thesis by auto
      qed
    next
      assume "e \<in> ?R"
      then consider "50 < length t" "e = TagTooLong i"
        | k where "e = TagTooLong (Suc i + k)" "k < length ts" "50 < length (ts ! k)"
        by (auto split: if_splits)
      then show "e \<in> ?L"
      proof cases
        case 1
        then have "e = TagTooLong (i + 0) \<and> 0 < length (t # ts) \<and> 50 < length ((t # ts) ! 0)"
          by simp
        then show ?thesis by blast
      next
        case 2
        then have "e = TagTooLong (i + Suc k) \<and> Suc k < length (t # ts)
            \<and> 50 < length ((t # ts) ! Suc k)" by simp
        then show ?thesis by blast
      qed
    qed
  qed
  then show ?case using Cons.IH[of "Suc i"] by simp
qed

lemma validate_tags_from_range: "set (validate_tags_from i ts) \<subseteq> range TagTooLong"
  by (auto simp: validate_tags_from_set)

lemma validate_grants_from_range: "set (validate_grants_from i gs) \<subseteq> range BadPermission"
  by (induction gs arbitrary: i) auto

lemma mem_validate:
  "e \<in> set (validate d) \<longleftrightarrow>
     e \<in> set (validate_name d) \<or> e \<in> set (validate_original_name d) \<or>
     e \<in> set (validate_uuid d) \<or> e \<in> set (validate_size d) \<or>
     e \<in> set (validate_page_count d) \<or> e \<in> set (validate_indexing_status d) \<or>
     e \<in> set (validate_chunks d) \<or> e \<in> set (validate_description d) \<or>
     e \<in> set (validate_tags_from 0 (tags d)) \<or>
     e \<in> set (validate_grants_from 0 (shared_with d))"
  by (simp add: validate_def)

lemma validate_name_set: "set (validate_name d) \<subseteq> {NameRequired, NameTooLong}"
  by (auto simp: validate_name_def)

lemma validate_other_sets:
  "set (validate_original_name d) \<subseteq> {OriginalNameRequired}"
  "set (validate_uuid d) \<subseteq> {UuidRequired}"
  "set (validate_size d) \<subseteq> {SizeRequired, SizeNegative}"
  "set (validate_page_count d) \<subseteq> {PageCountNegative}"
  "set (validate_indexing_status d) \<subseteq> {BadIndexingStatus}"
  "set (validate_chunks d) \<subseteq> {TotalChunksNegative, SuccessfulChunksNegative}"
  "set (validate_description d) \<subseteq> {DescriptionTooLong}"
  by (auto simp: validate_original_name_def validate_uuid_def validate_size_def
      validate_page_count_def validate_indexing_status_def validate_chunks_def
      validate_description_def split: option.splits if_splits)

lemma name_errors_iff:
  "e \<in> {NameRequired, NameTooLong} \<Longrightarrow> e \<in> set (validate d) \<longleftrightarrow> e \<in> set (validate_name d)"
  using validate_other_sets[of d] validate_tags_from_range[of 0 "tags d"]
    validate_grants_from_range[of 0 "shared_with d"]
  unfolding mem_validate by blast

lemma size_errors_iff:
  "e \<in> {SizeRequired, SizeNegative} \<Longrightarrow> e \<in> set (validate d) \<longleftrightarrow> e \<in> set (validate_size d)"
  using validate_other_sets[of d] validate_name_set[of d]
    validate_tags_from_range[of 0 "tags d"] validate_grants_from_range[of 0 "shared_with d"]
  unfolding mem_validate by blast

lemma NameRequired_iff: "NameRequired \<in> set (validate d) \<longleftrightarrow> falsy (name d)"
  by (simp add: name_errors_iff validate_name_def)

lemma NameTooLong_iff: "NameTooLong \<in> set (validate d) \<longleftrightarrow> name_too_long d"
  by (cases "name d") (auto simp: name_errors_iff validate_name_def name_too_long_def)

lemma SizeRequired_iff: "SizeRequired \<in> set (validate d) \<longleftrightarrow> size_bytes d = None"
  by (cases "size_bytes d") (simp_all add: size_errors_iff validate_size_def)

lemma SizeNegative_iff: "SizeNegative \<in> set (validate d) \<longleftrightarrow> size_negative d"
  by (cases "size_bytes d") (simp_all add: size_errors_iff validate_size_def size_negative_def)

lemma DescriptionTooLong_iff:
  "DescriptionTooLong \<in> set (validate d) \<longleftrightarrow> description_too_long d"
proof -
  have "DescriptionTooLong \<in> set (validate d)
      \<longleftrightarrow> DescriptionTooLong \<in> set (validate_description d)"
    using validate_other_sets[of d] validate_name_set[of d]
      validate_tags_from_range[of 0 "tags d"] validate_grants_from_range[of 0 "shared_with d"]
    unfolding mem_validate by blast
  also have "\<dots> \<longleftrightarrow> description_too_long d"
    by (cases "description d") (simp_all add: validate_description_def description_too_long_def)
  finally show ?thesis .
qed

lemma TagTooLong_iff:
  "TagTooLong i \<in> set (validate d) \<longleftrightarrow> i < length (tags d) \<and> 50 < length (tags d ! i)"
proof -
  have "TagTooLong i \<in> set (validate d) \<longleftrightarrow> TagTooLong i \<in> set (validate_tags_from 0 (tags d))"
    using validate_other_sets[of d] validate_name_set[of d]
      validate_grants_from_range[of 0 "shared_with d"]
    unfolding mem_validate by blast
  also have "\<dots> \<longleftrightarrow> i < length (tags d) \<and> 50 < length (tags d ! i)"
    by (auto simp: validate_tags_from_set)
  finally show ?thesis .
qed

lemma some_TagTooLong_iff: "(\<exists>i. TagTooLong i \<in> set (validate d)) \<longleftrightarrow> tag_too_long d"
proof -
  have "tag_too_long d \<longleftrightarrow> (\<exists>i. i < length (tags d) \<and> 50 < length (tags d ! i))"
    unfolding tag_too_long_def list_ex_iff by (metis in_set_conv_nth)
  then show ?thesis by (simp add: TagTooLong_iff)
qed

lemma validate_doc0: "validate doc0 = []"
  by (simp add: validate_defs doc_defs)

lemma validate_doc_long_name: "validate doc_long_name = [NameTooLong]"
  by (simp add: validate_defs doc_defs)

subsection \<open>save and the pre-save hook\<close>

lemma save_rejects:
  "e \<in> set (validate d) \<Longrightarrow> save now d = (d, Some (ValidationError (validate d)))"
  by (cases "validate d") (auto simp: save_def)

lemma save_accepts: "validate d = [] \<Longrightarrow> save now d = (pre_save now d, None)"
  by (simp add: save_def)

lemma save_ok_valid: "snd (save now d) = None \<Longrightarrow> validate d = []"
  by (cases "validate d") (simp_all add: save_def)

lemma fst_save_cases: "fst (save now d) = d \<or> fst (save now d) = pre_save now d"
  by (cases "validate d") (simp_all add: save_def)

lemma pre_save_chunks:
  "total_chunks (pre_save now d) = total_chunks d"
  "successful_chunks (pre_save now d) = successful_chunks d"
  by (simp_all add: pre_save_def Let_def)

lemma pre_save_shared_with: "shared_with (pre_save now d) = shared_with d"
  by (simp add: pre_save_def Let_def)

lemma save_shared_with: "shared_with (fst (save now d)) = shared_with d"
  using fst_save_cases[of now d] pre_save_shared_with[of now d] by auto

text \<open>
  What the hook of lines 151-153 does when it runs: an unset or empty \<open>original_name\<close> is
  replaced by a non-empty \<open>name\<close>, and afterwards a non-empty name comes with a
  non-empty original name.
\<close>

lemma pre_save_original_name:
  "falsy (original_name d) \<Longrightarrow> \<not> falsy (name d) \<Longrightarrow> original_name (pre_save now d) = name d"
  by (simp add: pre_save_def Let_def)

lemma pre_save_original_name_set:
  "\<not> falsy (name (pre_save now d)) \<Longrightarrow> \<not> falsy (original_name (pre_save now d))"
  by (auto simp: pre_save_def Let_def split: if_splits)

text \<open>A save that succeeds had a non-empty original name before the hook ran.\<close>

lemma save_ok_original_name:
  "snd (save now d) = None \<Longrightarrow>
     \<not> falsy (original_name d) \<and> original_name (fst (save now d)) = original_name d"
proof -
  assume ok: "snd (save now d) = None"
  then have v: "validate d = []" by (rule save_ok_valid)
  then have "validate_original_name d = []" by (simp add: validate_def)
  then have nf: "\<not> falsy (original_name d)"
    by (auto simp: validate_original_name_def split: if_splits)
  then have "original_name (pre_save now d) = original_name d"
    by (simp add: pre_save_def Let_def)
  with nf v show ?thesis by (simp add: save_def)
qed

subsection \<open>Access resolution and sharing\<close>

text \<open>The first two steps of \<open>getUserPermission\<close>, and the third as the code reads it.\<close>

lemma getUserPermission_owner: "getUserPermission d (uploaded_by d) = ''owner''"
  by (simp add: getUserPermission_def)

lemma getUserPermission_public:
  "userId \<noteq> uploaded_by d \<Longrightarrow> is_public d \<Longrightarrow> getUserPermission d userId = ''read''"
  by (simp add: getUserPermission_def)

lemma getUserPermission_private:
  "userId \<noteq> uploaded_by d \<Longrightarrow> \<not> is_public d \<Longrightarrow>
     getUserPermission d userId =
       (case find (\<lambda>share. user_id share = Some userId) (shared_with d) of
          Some userShare \<Rightarrow> (if permission userShare = [] then ''read'' else permission userShare)
        | None \<Rightarrow> ''none'')"
  by (cases "shared_with d") (simp_all add: getUserPermission_def)

lemma find_user_id_schema_shaped:
  "list_all (\<lambda>g. user_id g = None \<and> shared_at g = None) gs \<Longrightarrow>
     find (\<lambda>share. user_id share = Some userId) gs = None"
  by (induction gs) auto

lemma findIndex_user_id_schema_shaped:
  "list_all (\<lambda>g. user_id g = None \<and> shared_at g = None) gs \<Longrightarrow>
     findIndex (\<lambda>share. user_id share = Some userId) gs = -1"
  by (induction gs) auto

text \<open>
  On a document of the schema's shape the grants play no part in the three methods:
  resolution never reaches a grant, \<open>shareWith\<close> always appends, and \<open>removeSharing\<close>
  always throws.
\<close>

lemma getUserPermission_schema_shaped:
  "schema_shaped d \<Longrightarrow>
     getUserPermission d userId =
       (if userId = uploaded_by d then ''owner'' else if is_public d then ''read'' else ''none'')"
  by (simp add: getUserPermission_def schema_shaped_def find_user_id_schema_shaped)

lemma shareWith_schema_shaped:
  "schema_shaped d \<Longrightarrow> userId \<noteq> uploaded_by d \<Longrightarrow>
     shareWith now userId perm d =
       save now (d\<lparr>shared_with := shared_with d @ [new_grant perm]\<rparr>)"
  by (auto simp: shareWith_def schema_shaped_def findIndex_user_id_schema_shaped cast_grant_def
      new_grant_def Let_def)

lemma shareWith_keeps_schema_shape:
  "schema_shaped d \<Longrightarrow> schema_shaped (fst (shareWith now userId perm d))"
proof (cases "userId = uploaded_by d")
  case True
  assume "schema_shaped d"
  with True show ?thesis by (simp add: shareWith_def)
next
  case False
  assume s: "schema_shaped d"
  have "shared_with (fst (shareWith now userId perm d)) = shared_with d @ [new_grant perm]"
    using shareWith_schema_shaped[OF s False, of now perm] by (simp add: save_shared_with)
  with s show ?thesis by (simp add: schema_shaped_def new_grant_def)
qed

lemma removeSharing_schema_shaped:
  "schema_shaped d \<Longrightarrow>
     removeSharing now userId d =
       (d, Some (Error (if shared_with d = [] then ''PDF is not shared with any users''
                        else ''PDF is not shared with this user'')))"
  by (simp add: removeSharing_def schema_shaped_def findIndex_user_id_schema_shaped)

text \<open>
  The two failures of \<open>removeSharing\<close> leave the document as it is; and when some element
  carries \<open>user_id\<close> equal to the argument, the first such element, and only it, is
  removed.
\<close>

lemma removeSharing_fails:
  "shared_with d = [] \<or> (\<forall>g\<in>set (shared_with d). user_id g \<noteq> Some userId) \<Longrightarrow>
     fst (removeSharing now userId d) = d \<and>
     (\<exists>msg. snd (removeSharing now userId d) = Some (Error msg))"
  using findIndex_none[of "\<lambda>share. user_id share = Some userId" "shared_with d"]
  by (auto simp: removeSharing_def Let_def)

lemma removeSharing_removes:
  "findIndex (\<lambda>share. user_id share = Some userId) (shared_with d) \<noteq> -1 \<Longrightarrow>
     shared_with (fst (removeSharing now userId d)) =
       splice1 (nat (findIndex (\<lambda>share. user_id share = Some userId) (shared_with d)))
         (shared_with d)"
proof -
  assume ne: "findIndex (\<lambda>share. user_id share = Some userId) (shared_with d) \<noteq> -1"
  then have "shared_with d \<noteq> []" by auto
  with ne show ?thesis by (simp add: removeSharing_def Let_def save_shared_with)
qed

lemma shareWith_updates_in_place:
  "userId \<noteq> uploaded_by d \<Longrightarrow>
   findIndex (\<lambda>share. user_id share = Some userId) (shared_with d) \<noteq> -1 \<Longrightarrow>
     length (shared_with (fst (shareWith now userId perm d))) = length (shared_with d)"
proof -
  assume o: "userId \<noteq> uploaded_by d"
    and ne: "findIndex (\<lambda>share. user_id share = Some userId) (shared_with d) \<noteq> -1"
  from findIndex_found[OF ne]
  have "0 \<le> findIndex (\<lambda>share. user_id share = Some userId) (shared_with d)" by simp
  with o show ?thesis by (simp add: shareWith_def Let_def save_shared_with)
qed

text \<open>
  The listing, as a set. The third disjunct reads the declared path \<open>user\<close>, as the
  replaced \<open>hasAccess\<close> of line 128 does; the two definitions of \<open>hasAccess\<close> disagree on
  a grant of the schema's shape.
\<close>

lemma findByUser_set:
  "set (findByUser coll userId) =
     {d \<in> set coll. uploaded_by d = userId \<or> is_public d \<or>
        (\<exists>g\<in>set (shared_with d). user g = Some userId)}"
  by (auto simp: findByUser_def list_ex_iff)

lemma hasAccess_definitions_differ:
  "hasAccess_128 doc_granted ''u1'' \<and> \<not> hasAccess doc_granted ''u1''"
  by (simp add: hasAccess_128_def hasAccess_def getUserPermission_def doc_defs)

section \<open>The claims\<close>

text \<open>
  C1. Resolution is to go: owner, then public, then the user's grant, then none; and a
  user to whom the document was shared resolves to the granted permission. The code
  reads the grant through \<open>user_id\<close>, which the schema does not declare. The document
  \<open>doc_granted\<close> is private, owned by \<open>a1\<close>, and holds the grant
  \<open>{user: u1, permission: 'write'}\<close>; \<open>getUserPermission\<close> answers \<open>none\<close> for \<open>u1\<close>.
  Likewise \<open>shareWith(u1, 'write')\<close> on \<open>doc0\<close> succeeds, appends a subdocument that
  names no user, and \<open>u1\<close> still resolves to \<open>none\<close>.
\<close>

theorem getUserPermission_misses_schema_grant:
  "getUserPermission doc_granted ''u1'' = ''none'' \<and>
   shareWith 7 ''u1'' ''write'' doc0 = (doc0\<lparr>shared_with := [new_grant ''write'']\<rparr>, None) \<and>
   getUserPermission (doc0\<lparr>shared_with := [new_grant ''write'']\<rparr>) ''u1'' = ''none''"
  by (simp add: getUserPermission_def shareWith_def save_def pre_save_def cast_grant_def
      validate_defs doc_defs)

text \<open>
  C2. Sharing twice with the same user is to leave one grant, holding the second
  permission. On \<open>doc0\<close>, \<open>shareWith(u1, 'write')\<close> followed by \<open>shareWith(u1, 'read')\<close>
  leaves two subdocuments, \<open>write\<close> and \<open>read\<close>, neither naming \<open>u1\<close>; and on
  \<open>doc_granted\<close>, whose only grant is \<open>{user: u1, permission: 'write'}\<close>,
  \<open>shareWith(u1, 'read')\<close> appends a second element and leaves that grant at \<open>write\<close>.
\<close>

theorem shareWith_twice_two_grants:
  "shareWith 1 ''u1'' ''write'' doc0 = (doc0\<lparr>shared_with := [new_grant ''write'']\<rparr>, None) \<and>
   shareWith 2 ''u1'' ''read'' (doc0\<lparr>shared_with := [new_grant ''write'']\<rparr>)
     = (doc0\<lparr>shared_with := [new_grant ''write'', new_grant ''read'']\<rparr>, None) \<and>
   shareWith 2 ''u1'' ''read'' doc_granted
     = (doc0\<lparr>shared_with := [grant_u1 ''write'', new_grant ''read'']\<rparr>, None)"
  by (simp add: shareWith_def save_def pre_save_def cast_grant_def validate_defs doc_defs)

text \<open>
  C3, as stated: every save in which \<open>is_indexed\<close> is modified to true sets
  \<open>indexing_status\<close> to \<open>completed\<close>. It fails on \<open>doc_reindexed\<close>: \<open>is_indexed\<close> is
  modified and true, \<open>indexed_at\<close> is already set, the save succeeds and the status stays
  \<open>processing\<close>, because the assignment of the status sits under the same guard
  \<open>!this.indexed_at\<close> as the assignment of the timestamp.
\<close>

theorem save_reindexed_status_counterexample:
  "modified_is_indexed doc_reindexed \<and> is_indexed doc_reindexed \<and>
   save 9 doc_reindexed = (doc_reindexed, None) \<and>
   indexing_status doc_reindexed = ''processing''"
  by (simp add: save_def pre_save_def validate_defs doc_defs)

text \<open>
  C3, amended. A save that passes validation, in which \<open>is_indexed\<close> is modified to true
  and \<open>indexed_at\<close> is unset, succeeds and sets, in that save, \<open>indexed_at\<close> to the current
  time and \<open>indexing_status\<close> to \<open>completed\<close>. When \<open>indexed_at\<close> is already set, no save
  changes \<open>indexed_at\<close> or \<open>indexing_status\<close>.
\<close>

theorem save_sets_indexed_at:
  "(validate d = [] \<and> modified_is_indexed d \<and> is_indexed d \<and> indexed_at d = None \<longrightarrow>
      snd (save now d) = None \<and> indexed_at (fst (save now d)) = Some now \<and>
      indexing_status (fst (save now d)) = ''completed'') \<and>
   (indexed_at d \<noteq> None \<longrightarrow>
      indexed_at (fst (save now d)) = indexed_at d \<and>
      indexing_status (fst (save now d)) = indexing_status d)"
proof (intro conjI impI)
  assume h: "validate d = [] \<and> modified_is_indexed d \<and> is_indexed d \<and> indexed_at d = None"
  then have s: "save now d = (pre_save now d, None)" by (simp add: save_def)
  show "snd (save now d) = None" by (simp add: s)
  show "indexed_at (fst (save now d)) = Some now" using h by (simp add: s pre_save_def Let_def)
  show "indexing_status (fst (save now d)) = ''completed''"
    using h by (simp add: s pre_save_def Let_def)
next
  assume h: "indexed_at d \<noteq> None"
  then have p: "indexed_at (pre_save now d) = indexed_at d"
    "indexing_status (pre_save now d) = indexing_status d"
    by (auto simp: pre_save_def Let_def)
  show "indexed_at (fst (save now d)) = indexed_at d"
    using fst_save_cases[of now d] p by auto
  show "indexing_status (fst (save now d)) = indexing_status d"
    using fst_save_cases[of now d] p by auto
qed

text \<open>
  The amended C3 at two documents: the first indexing of \<open>doc_first_indexed\<close> at time 9,
  and a save of \<open>doc_reindexed\<close>, indexed at time 5.
\<close>

theorem save_sets_indexed_at_witness:
  "validate doc_first_indexed = [] \<and> modified_is_indexed doc_first_indexed \<and>
   is_indexed doc_first_indexed \<and> indexed_at doc_first_indexed = None \<and>
   indexed_at (fst (save 9 doc_first_indexed)) = Some 9 \<and>
   indexing_status (fst (save 9 doc_first_indexed)) = ''completed'' \<and>
   indexed_at doc_reindexed \<noteq> None \<and>
   indexed_at (fst (save 9 doc_reindexed)) = Some 5 \<and>
   indexing_status (fst (save 9 doc_reindexed)) = ''processing''"
proof -
  have h1: "validate doc_first_indexed = [] \<and> modified_is_indexed doc_first_indexed \<and>
     is_indexed doc_first_indexed \<and> indexed_at doc_first_indexed = None"
    by (simp add: validate_defs doc_defs)
  have h2: "indexed_at doc_reindexed = Some 5" "indexing_status doc_reindexed = ''processing''"
    by (simp_all add: doc_defs)
  show ?thesis
    using h1 h2 save_sets_indexed_at[of doc_first_indexed 9]
      save_sets_indexed_at[of doc_reindexed 9]
    by simp
qed

text \<open>
  C4, as stated: \<open>successful_chunks \<le> total_chunks\<close> holds for every document at all
  times. It fails on \<open>doc_over\<close>, with 5 successful chunks of 3: the save succeeds and
  stores the document as it is. The schema gives each counter a lower bound of 0 and no
  validator relates the two.
\<close>

theorem save_accepts_successful_above_total:
  "save 1 doc_over = (doc_over, None) \<and> \<not> successful_chunks doc_over \<le> total_chunks doc_over"
  by (simp add: save_def pre_save_def validate_defs doc_defs)

text \<open>
  C4, amended. After a successful save both counters are at least 0; and \<open>save\<close>,
  \<open>shareWith\<close> and \<open>removeSharing\<close> never change either counter, so they keep
  \<open>successful_chunks \<le> total_chunks\<close> wherever it held before.
\<close>

theorem chunk_counters_on_save:
  "(snd (save now d) = None \<longrightarrow>
      0 \<le> successful_chunks (fst (save now d)) \<and> 0 \<le> total_chunks (fst (save now d))) \<and>
   successful_chunks (fst (save now d)) = successful_chunks d \<and>
   total_chunks (fst (save now d)) = total_chunks d \<and>
   successful_chunks (fst (shareWith now userId perm d)) = successful_chunks d \<and>
   total_chunks (fst (shareWith now userId perm d)) = total_chunks d \<and>
   successful_chunks (fst (removeSharing now userId d)) = successful_chunks d \<and>
   total_chunks (fst (removeSharing now userId d)) = total_chunks d"
proof -
  have keep: "successful_chunks (fst (save t x)) = successful_chunks x \<and>
              total_chunks (fst (save t x)) = total_chunks x" for t x
    using fst_save_cases[of t x] pre_save_chunks[of t x] by auto
  have nonneg: "snd (save now d) = None \<longrightarrow>
      0 \<le> successful_chunks (fst (save now d)) \<and> 0 \<le> total_chunks (fst (save now d))"
  proof
    assume ok: "snd (save now d) = None"
    then have "validate d = []" by (rule save_ok_valid)
    then have "validate_chunks d = []" by (simp add: validate_def)
    then have "0 \<le> successful_chunks d \<and> 0 \<le> total_chunks d"
      by (auto simp: validate_chunks_def split: if_splits)
    then show "0 \<le> successful_chunks (fst (save now d)) \<and> 0 \<le> total_chunks (fst (save now d))"
      using keep[of now d] by simp
  qed
  have sh: "successful_chunks (fst (shareWith now userId perm d)) = successful_chunks d \<and>
            total_chunks (fst (shareWith now userId perm d)) = total_chunks d"
    by (simp add: shareWith_def Let_def keep)
  have rm: "successful_chunks (fst (removeSharing now userId d)) = successful_chunks d \<and>
            total_chunks (fst (removeSharing now userId d)) = total_chunks d"
    by (simp add: removeSharing_def Let_def keep)
  show ?thesis using nonneg keep[of now d] sh rm by blast
qed

text \<open>The amended C4 at \<open>doc0\<close>, whose save succeeds.\<close>

theorem chunk_counters_on_save_witness:
  "snd (save 1 doc0) = None \<and>
   0 \<le> successful_chunks (fst (save 1 doc0)) \<and> 0 \<le> total_chunks (fst (save 1 doc0)) \<and>
   successful_chunks (fst (shareWith 1 ''u1'' ''read'' doc0)) = 0 \<and>
   total_chunks (fst (removeSharing 1 ''u1'' doc0)) = 0"
proof -
  have h: "snd (save 1 doc0) = None" by (simp add: save_def validate_doc0)
  have z: "successful_chunks doc0 = 0" "total_chunks doc0 = 0" by (simp_all add: doc0_def)
  show ?thesis using h z chunk_counters_on_save[of 1 doc0 "''u1''" "''read''"] by simp
qed

text \<open>
  C5. Sharing a document with its owner fails, whatever the permission, with the error
  \<open>Cannot share PDF with owner\<close>, and the document, its grant list included, is as it
  was: the throw of line 196 precedes every assignment.
\<close>

theorem shareWith_owner_rejected:
  "shareWith now (uploaded_by d) perm d = (d, Some (Error ''Cannot share PDF with owner''))"
  by (simp add: shareWith_def)

text \<open>
  C6. Unsharing is to remove the user's grant when there is one. On \<open>doc_granted\<close>, which
  holds the grant \<open>{user: u1, permission: 'write'}\<close>, \<open>removeSharing(u1)\<close> throws
  \<open>PDF is not shared with this user\<close> and removes nothing: the search of lines 235-237
  reads \<open>user_id\<close>. (The two failures the claim names do leave the list unchanged; see
  \<open>removeSharing_fails\<close>.)
\<close>

theorem removeSharing_misses_schema_grant:
  "removeSharing 3 ''u1'' doc_granted =
     (doc_granted, Some (Error ''PDF is not shared with this user''))"
  by (simp add: removeSharing_def doc_defs)

text \<open>
  C7. A document shared with a user is to appear in that user's listing. After
  \<open>shareWith(u1, 'read')\<close> on \<open>doc0\<close> has succeeded, \<open>findByUser(u1)\<close> over a collection
  holding the saved document returns nothing: the query matches on \<open>shared_with.user\<close>,
  which \<open>shareWith\<close> never sets. (The listing is otherwise as the claim says; see
  \<open>findByUser_set\<close>.)
\<close>

theorem findByUser_misses_shared_document:
  "shareWith 1 ''u1'' ''read'' doc0 = (doc0\<lparr>shared_with := [new_grant ''read'']\<rparr>, None) \<and>
   findByUser [doc0\<lparr>shared_with := [new_grant ''read'']\<rparr>] ''u1'' = []"
  by (simp add: findByUser_def shareWith_def save_def pre_save_def cast_grant_def
      validate_defs doc_defs)

text \<open>
  C8. Validation reports a too long name, a too long description, a too long tag and a
  negative size exactly when the bound is violated; a save of a document that violates
  one of the bounds is rejected with a ValidationError and stores nothing; and a
  document that has a name and a size and is within the bounds gets no validation error
  at all on \<open>name\<close>, \<open>size\<close>, \<open>description\<close> or \<open>tags\<close>.
\<close>

theorem validation_bounds:
  "(NameTooLong \<in> set (validate d) \<longleftrightarrow> name_too_long d) \<and>
   (DescriptionTooLong \<in> set (validate d) \<longleftrightarrow> description_too_long d) \<and>
   ((\<exists>i. TagTooLong i \<in> set (validate d)) \<longleftrightarrow> tag_too_long d) \<and>
   (SizeNegative \<in> set (validate d) \<longleftrightarrow> size_negative d) \<and>
   (bound_violated d \<longrightarrow>
      validate d \<noteq> [] \<and> save now d = (d, Some (ValidationError (validate d)))) \<and>
   (\<not> bound_violated d \<and> \<not> falsy (name d) \<and> size_bytes d \<noteq> None \<longrightarrow>
      \<not> list_ex field_error (validate d))"
proof -
  note iffs = NameTooLong_iff[of d] DescriptionTooLong_iff[of d] some_TagTooLong_iff[of d]
    SizeNegative_iff[of d]
  have b: "bound_violated d \<longrightarrow>
      validate d \<noteq> [] \<and> save now d = (d, Some (ValidationError (validate d)))"
  proof
    assume "bound_violated d"
    then obtain e where e: "e \<in> set (validate d)"
      using iffs unfolding bound_violated_def by blast
    then have "validate d \<noteq> []" by auto
    with save_rejects[OF e, of now]
    show "validate d \<noteq> [] \<and> save now d = (d, Some (ValidationError (validate d)))" by simp
  qed
  have c: "\<not> bound_violated d \<and> \<not> falsy (name d) \<and> size_bytes d \<noteq> None \<longrightarrow>
      \<not> list_ex field_error (validate d)"
  proof
    assume h: "\<not> bound_violated d \<and> \<not> falsy (name d) \<and> size_bytes d \<noteq> None"
    have "\<not> field_error e" if e: "e \<in> set (validate d)" for e
    proof (cases e)
      case NameRequired
      with e h show ?thesis by (simp add: NameRequired_iff)
    next
      case NameTooLong
      with e h show ?thesis by (simp add: NameTooLong_iff bound_violated_def)
    next
      case SizeRequired
      with e h show ?thesis by (simp add: SizeRequired_iff)
    next
      case SizeNegative
      with e h show ?thesis by (simp add: SizeNegative_iff bound_violated_def)
    next
      case DescriptionTooLong
      with e h show ?thesis by (simp add: DescriptionTooLong_iff bound_violated_def)
    next
      case (TagTooLong i)
      with e have "\<exists>i. TagTooLong i \<in> set (validate d)" by blast
      with h show ?thesis by (simp add: some_TagTooLong_iff bound_violated_def)
    qed simp_all
    then show "\<not> list_ex field_error (validate d)" by (auto simp: list_ex_iff)
  qed
  show ?thesis using iffs b c by blast
qed

text \<open>
  C8 at \<open>doc_long_name\<close>, whose name of 256 code units is rejected, and at \<open>doc0\<close>, which
  is within the bounds and is saved.
\<close>

theorem validation_bounds_witness:
  "bound_violated doc_long_name \<and>
   save 1 doc_long_name = (doc_long_name, Some (ValidationError [NameTooLong])) \<and>
   \<not> bound_violated doc0 \<and> \<not> falsy (name doc0) \<and> size_bytes doc0 \<noteq> None \<and>
   \<not> list_ex field_error (validate doc0) \<and> snd (save 1 doc0) = None"
proof -
  have h: "bound_violated doc_long_name"
    by (simp add: bound_violated_def name_too_long_def doc_defs)
  have g: "\<not> bound_violated doc0 \<and> \<not> falsy (name doc0) \<and> size_bytes doc0 \<noteq> None"
    by (simp add: bound_violated_def name_too_long_def description_too_long_def
        tag_too_long_def size_negative_def doc_defs)
  have s: "snd (save 1 doc0) = None" by (simp add: save_def validate_doc0)
  show ?thesis
    using h g s validation_bounds[of doc_long_name 1] validation_bounds[of doc0 1]
    by (simp add: validate_doc_long_name)
qed

text \<open>
  C9. \<open>hasAccess\<close> (the definition of line 185, the one in force) is true exactly when
  \<open>getUserPermission\<close> returns something other than \<open>none\<close>.
\<close>

theorem hasAccess_iff_permission:
  "hasAccess d userId \<longleftrightarrow> getUserPermission d userId \<noteq> ''none''"
  by (simp add: hasAccess_def)

text \<open>
  C10. A save of a document with a name and no original name is to copy the name into
  \<open>original_name\<close>. On \<open>doc_no_original\<close> the save is rejected with the ValidationError
  of the \<open>required\<close> validator of \<open>original_name\<close>, and the document is left without an
  original name: validation runs before the hook that would have filled it. (After a
  successful save the original name is non-empty; see \<open>save_ok_original_name\<close>.)
\<close>

theorem save_rejects_missing_original_name:
  "\<not> falsy (name doc_no_original) \<and> falsy (original_name doc_no_original) \<and>
   save 1 doc_no_original = (doc_no_original, Some (ValidationError [OriginalNameRequired]))"
  by (simp add: save_def validate_defs doc_defs)

end
